theory Spec2Isabelle
  imports Main
begin

section \<open>Data model of featureTree.hh\<close>

text \<open>
  remapStatus.hh and gxf.hh are included by featureTree.hh but their text is not
  part of the sources, so the enumerations and the feature record are
  Modelled from the spec: they carry the members the spec lists (section 3) under
  the names the headers use.
\<close>

text \<open>
  Modelled from the spec: \<open>RemapStatus\<close> of remapStatus.hh. The header names
  \<open>REMAP_STATUS_NONE\<close> and \<open>REMAP_STATUS_DELETED\<close> and mentions the gene
  conflict and gene size change states; the spec adds fully mapped, partially mapped
  and the undetermined/excluded variant used when the source sequence took no part in
  the projection.
\<close>
datatype RemapStatus =
    REMAP_STATUS_NONE
  | REMAP_STATUS_FULL
  | REMAP_STATUS_PARTIAL
  | REMAP_STATUS_DELETED
  | REMAP_STATUS_NO_SEQ_MAP
  | REMAP_STATUS_GENE_CONFLICT
  | REMAP_STATUS_GENE_SIZE_CHANGE

text \<open>
  Modelled from the spec: \<open>TargetStatus\<close> of remapStatus.hh (not applicable,
  new, lost, overlap found).
\<close>
datatype TargetStatus =
    TARGET_STATUS_NA
  | TARGET_STATUS_NEW
  | TARGET_STATUS_LOST
  | TARGET_STATUS_OVERLAP

text \<open>
  Modelled from the spec: the type tag of a feature record
  (\<open>GxfFeature::GENE\<close>, \<open>TRANSCRIPT\<close>, \<open>EXON\<close> in the header, anything else
  is \<open>OTHER\<close>).
\<close>
datatype GxfFeatureType = GENE | TRANSCRIPT | EXON | OTHER

text \<open>
  Modelled from the spec: the keys of the attribute bag. featureTree.hh declares six
  attribute names as \<open>extern const string\<close>; the file that spells them is not
  among the sources, so they are kept as six distinct keys next to the keys read
  from the input.
\<close>
datatype AttrName =
    REMAP_STATUS_ATTR
  | REMAP_ORIGINAL_ID_ATTR
  | REMAP_ORIGINAL_LOCATION_ATTR
  | REMAP_NUM_MAPPINGS_ATTR
  | REMAP_TARGET_STATUS_ATTR
  | REMAP_SUBSTITUTED_MISSING_TARGET_ATTR
  | OtherAttr string

text \<open>
  Modelled from the spec: an attribute value, a string of the input or the status
  or count a node stamps on its record (the functions of remapStatus.hh that print
  a status are not among the sources).
\<close>
datatype AttrVal =
    StrVal string
  | RemapStatusVal RemapStatus
  | TargetStatusVal TargetStatus
  | NumVal int

text \<open>
  Modelled from the spec: the flat feature record \<open>GxfFeature\<close> of gxf.hh: type
  tag, sequence id, half-open interval \<open>[fStart, fEnd)\<close>, strand and attribute bag.
\<close>
record GxfFeature =
  fType :: GxfFeatureType
  fSeqid :: string
  fStart :: int
  fEnd :: int
  fStrand :: string
  fAttrs :: "(AttrName \<times> AttrVal) list"

text \<open>
  \<open>class FeatureNode\<close> as the object in memory, with its pointers: nodes live in
  a store and are named by their address; \<open>fParent\<close> is \<open>None\<close> for \<open>NULL\<close>
  and \<open>fChildren\<close> is the vector of child pointers. This view is used for
  \<open>addChild\<close>, the one operation of the header that reads and writes the parent
  back-reference.
\<close>
type_synonym addr = nat

record FeatureNodeObj =
  fFeature :: GxfFeature
  fParent :: "addr option"
  fChildren :: "addr list"
  fRemapStatus :: RemapStatus
  fTargetStatus :: TargetStatus
  fNumMappings :: int

type_synonym store = "addr \<Rightarrow> FeatureNodeObj option"

text \<open>
  What a call can end in besides returning: a failed \<open>assert\<close>, or the use of a
  pointer that names no node.
\<close>
datatype error = AssertionFailed | InvalidPointer

text \<open>
  \<open>class FeatureNode\<close> as the tree it owns: the record, the children in insertion
  order, the two statuses and the mapping count. \<open>fNumMappings\<close> is a C++ \<open>int\<close>
  that is only stored and read here, never computed with. A node owns its children
  (the destructor deletes them), so the subtree is a finite tree and is held by
  value; the parent back-reference is not part of this view.
\<close>
datatype FeatureNode =
  FeatureNode
    (fFeature: GxfFeature)
    (fChildren: "FeatureNode list")
    (fRemapStatus: RemapStatus)
    (fTargetStatus: TargetStatus)
    (fNumMappings: int)

text \<open>
  \<open>class TransMappedFeature\<close>: the source node and the vectors of mapped and
  unmapped nodes. Its fields share their names with those of
  \<open>ResultFeatureTrees\<close> and are written \<open>TransMappedFeature.mapped\<close> and so on.
\<close>
record TransMappedFeature =
  src :: "FeatureNode option"
  mapped :: "FeatureNode list"
  unmapped :: "FeatureNode list"

text \<open>
  \<open>class ResultFeatureTrees\<close>: four pointers, \<open>None\<close> for \<open>NULL\<close>. The three
  owned trees are separate objects (\<open>free()\<close> deletes each of them), so each is held
  by value.
\<close>
record ResultFeatureTrees =
  src :: "FeatureNode option"
  mapped :: "FeatureNode option"
  unmapped :: "FeatureNode option"
  target :: "FeatureNode option"

text \<open>
  \<open>class AnnotationSet\<close>: the two indexes from id and from name to the nodes kept
  for that key, the list of genes and the set of sequence ids whose sequence region
  has been written. The location map and the table of genome sizes play no part in
  the operations modelled here.
\<close>
record AnnotationSet =
  fIdFeatureMap :: "string \<Rightarrow> FeatureNode list option"
  fNameFeatureMap :: "string \<Rightarrow> FeatureNode list option"
  fGenes :: "FeatureNode list"
  fSeqRegionsWritten :: "string set"

text \<open>What \<open>write\<close> hands to the writer: a sequence-region header or a gene tree.\<close>
datatype GxfOutput = SeqRegionHeader string | GeneOutput FeatureNode

section \<open>FeatureNode\<close>

text \<open>\<open>isExon()\<close>: the record's type is \<open>GxfFeature::EXON\<close>.\<close>
definition isExon :: "FeatureNode \<Rightarrow> bool" where
  "isExon nd = (fType (fFeature nd) = EXON)"

text \<open>
  \<open>getMatching(hits, filter)\<close>: the node's record is pushed on \<open>hits\<close> when the
  filter accepts it, then the loop over \<open>fChildren\<close> calls \<open>getMatching\<close> on each
  child with the same \<open>hits\<close>.
\<close>
fun getMatching :: "GxfFeature list \<Rightarrow> (GxfFeature \<Rightarrow> bool) \<Rightarrow> FeatureNode \<Rightarrow> GxfFeature list" where
  "getMatching hits flt (FeatureNode ft cs rs ts nm) =
     fold (\<lambda>c h. getMatching h flt c) cs (if flt ft then hits @ [ft] else hits)"

text \<open>
  The spec's words for the result of \<open>getMatching\<close>: the nodes of the subtree in
  pre-order, a node before its children and the children in insertion order.
\<close>
fun preorder :: "FeatureNode \<Rightarrow> FeatureNode list" where
  "preorder (FeatureNode ft cs rs ts nm) =
     FeatureNode ft cs rs ts nm # concat (map preorder cs)"

text \<open>
  \<open>addChild(node)\<close> on the store, \<open>this\<close> and \<open>node\<close> being addresses: the
  assertion \<open>node->fParent == NULL\<close>, then \<open>fChildren.push_back(node)\<close>, then
  \<open>node->fParent = this\<close>. The two writes follow each other, so the model is also
  right when \<open>node\<close> is \<open>this\<close>.
\<close>
definition FeatureNode_addChild :: "addr \<Rightarrow> addr \<Rightarrow> store \<Rightarrow> error + store" where
  "FeatureNode_addChild this node h =
     (case h node of
        None \<Rightarrow> Inl InvalidPointer
      | Some n \<Rightarrow>
          if fParent n \<noteq> None then Inl AssertionFailed
          else (case h this of
                  None \<Rightarrow> Inl InvalidPointer
                | Some p \<Rightarrow>
                    let h1 = h(this := Some (p\<lparr>FeatureNodeObj.fChildren :=
                                                FeatureNodeObj.fChildren p @ [node]\<rparr>))
                    in (case h1 node of
                          None \<Rightarrow> Inl InvalidPointer
                        | Some n1 \<Rightarrow>
                            Inr (h1(node := Some (n1\<lparr>fParent := Some this\<rparr>))))))"

text \<open>\<open>setRemapStatus(remapStatus)\<close>: \<open>fRemapStatus = remapStatus\<close>.\<close>
definition FeatureNode_setRemapStatus :: "RemapStatus \<Rightarrow> FeatureNode \<Rightarrow> FeatureNode" where
  "FeatureNode_setRemapStatus remapStatus nd =
     FeatureNode (fFeature nd) (fChildren nd) remapStatus (fTargetStatus nd) (fNumMappings nd)"

text \<open>
  Modelled from the spec: \<open>FeatureNode::rsetRemapStatus\<close>, declared in
  featureTree.hh (commented as recursive) with its body outside the
  sources: it overwrites the status on this node and all descendants.
\<close>
fun FeatureNode_rsetRemapStatus :: "RemapStatus \<Rightarrow> FeatureNode \<Rightarrow> FeatureNode" where
  "FeatureNode_rsetRemapStatus remapStatus (FeatureNode ft cs rs ts nm) =
     FeatureNode ft (map (FeatureNode_rsetRemapStatus remapStatus) cs) remapStatus ts nm"

text \<open>
  Modelled from the spec: \<open>FeatureNode::setTargetStatus\<close>, declared in
  featureTree.hh (commented as not recursive) with its body outside
  the sources: it touches only this node.
\<close>
definition FeatureNode_setTargetStatus :: "TargetStatus \<Rightarrow> FeatureNode \<Rightarrow> FeatureNode" where
  "FeatureNode_setTargetStatus targetStatus nd =
     FeatureNode (fFeature nd) (fChildren nd) (fRemapStatus nd) targetStatus (fNumMappings nd)"

text \<open>
  Modelled from the spec: \<open>FeatureNode::rsetTargetStatus\<close>, declared in
  featureTree.hh with its body outside the sources: it overwrites the target status
  on this node and all descendants.
\<close>
fun FeatureNode_rsetTargetStatus :: "TargetStatus \<Rightarrow> FeatureNode \<Rightarrow> FeatureNode" where
  "FeatureNode_rsetTargetStatus targetStatus (FeatureNode ft cs rs ts nm) =
     FeatureNode ft (map (FeatureNode_rsetTargetStatus targetStatus) cs) rs targetStatus nm"

text \<open>
  Modelled from the spec: stamping an attribute, that is storing a value under a key
  of the attribute bag in place of the value the key has, if any (the attribute
  list of gxf.hh is not among the sources).
\<close>
fun attrs_update :: "AttrName \<Rightarrow> AttrVal \<Rightarrow> (AttrName \<times> AttrVal) list \<Rightarrow> (AttrName \<times> AttrVal) list" where
  "attrs_update k v [] = [(k, v)]"
| "attrs_update k v ((k', v') # as) =
     (if k = k' then (k, v) # as else (k', v') # attrs_update k v as)"

text \<open>
  Modelled from the spec: \<open>FeatureNode::rsetTargetStatusAttr\<close>, declared in
  featureTree.hh with its body outside the sources: it stamps the current target
  status on the record of this node and of all descendants.
\<close>
fun FeatureNode_rsetTargetStatusAttr :: "FeatureNode \<Rightarrow> FeatureNode" where
  "FeatureNode_rsetTargetStatusAttr (FeatureNode ft cs rs ts nm) =
     FeatureNode
       (ft\<lparr>fAttrs := attrs_update REMAP_TARGET_STATUS_ATTR (TargetStatusVal ts) (fAttrs ft)\<rparr>)
       (map FeatureNode_rsetTargetStatusAttr cs) rs ts nm"

text \<open>
  Modelled from the spec: \<open>FeatureNode::setNumMappingsAttr\<close>, declared in
  featureTree.hh (commented as not recursive) with its body outside the sources: it stamps
  the mapping count on the record of this node, not of its descendants.
\<close>
definition FeatureNode_setNumMappingsAttr :: "FeatureNode \<Rightarrow> FeatureNode" where
  "FeatureNode_setNumMappingsAttr nd =
     FeatureNode
       ((fFeature nd)\<lparr>fAttrs := attrs_update REMAP_NUM_MAPPINGS_ATTR (NumVal (fNumMappings nd))
                                    (fAttrs (fFeature nd))\<rparr>)
       (fChildren nd) (fRemapStatus nd) (fTargetStatus nd) (fNumMappings nd)"

text \<open>
  Modelled from the spec: \<open>FeatureNode::rsetRemapStatusAttr\<close>, declared in
  featureTree.hh with its body outside the sources: it stamps the current remap
  status on the record of this node and of all descendants.
\<close>
fun FeatureNode_rsetRemapStatusAttr :: "FeatureNode \<Rightarrow> FeatureNode" where
  "FeatureNode_rsetRemapStatusAttr (FeatureNode ft cs rs ts nm) =
     FeatureNode
       (ft\<lparr>fAttrs := attrs_update REMAP_STATUS_ATTR (RemapStatusVal rs) (fAttrs ft)\<rparr>)
       (map FeatureNode_rsetRemapStatusAttr cs) rs ts nm"

section \<open>ResultFeatureTrees: reading the status\<close>

definition ResultFeatureTrees_getRemapStatus :: "ResultFeatureTrees \<Rightarrow> RemapStatus" where
  "ResultFeatureTrees_getRemapStatus r =
     (if mapped r \<noteq> None then fRemapStatus (the (mapped r))
      else if unmapped r \<noteq> None then fRemapStatus (the (unmapped r))
      else if target r \<noteq> None then fRemapStatus (the (target r))
      else REMAP_STATUS_DELETED)"

definition ResultFeatureTrees_getTargetStatus :: "ResultFeatureTrees \<Rightarrow> TargetStatus" where
  "ResultFeatureTrees_getTargetStatus r =
     (if mapped r \<noteq> None then fTargetStatus (the (mapped r))
      else if unmapped r \<noteq> None then fTargetStatus (the (unmapped r))
      else if target r \<noteq> None then fTargetStatus (the (target r))
      else TARGET_STATUS_LOST)"

definition ResultFeatureTrees_getNumMappings :: "ResultFeatureTrees \<Rightarrow> int" where
  "ResultFeatureTrees_getNumMappings r =
     (if mapped r \<noteq> None then fNumMappings (the (mapped r))
      else if unmapped r \<noteq> None then fNumMappings (the (unmapped r))
      else 0)"

section \<open>ResultFeatureTrees: setting status and attributes\<close>

text \<open>
  Each of the following runs the node operation on \<open>mapped\<close> when it is not
  \<open>NULL\<close> and then on \<open>unmapped\<close> when it is not \<open>NULL\<close>.
\<close>

definition ResultFeatureTrees_rsetRemapStatus :: "RemapStatus \<Rightarrow> ResultFeatureTrees \<Rightarrow> ResultFeatureTrees" where
  "ResultFeatureTrees_rsetRemapStatus remapStatus r =
     (let r1 = (if mapped r \<noteq> None
                then r\<lparr>mapped := Some (FeatureNode_rsetRemapStatus remapStatus (the (mapped r)))\<rparr>
                else r)
      in if unmapped r1 \<noteq> None
         then r1\<lparr>unmapped := Some (FeatureNode_rsetRemapStatus remapStatus (the (unmapped r1)))\<rparr>
         else r1)"

definition ResultFeatureTrees_setTargetStatus :: "TargetStatus \<Rightarrow> ResultFeatureTrees \<Rightarrow> ResultFeatureTrees" where
  "ResultFeatureTrees_setTargetStatus targetStatus r =
     (let r1 = (if mapped r \<noteq> None
                then r\<lparr>mapped := Some (FeatureNode_setTargetStatus targetStatus (the (mapped r)))\<rparr>
                else r)
      in if unmapped r1 \<noteq> None
         then r1\<lparr>unmapped := Some (FeatureNode_setTargetStatus targetStatus (the (unmapped r1)))\<rparr>
         else r1)"

definition ResultFeatureTrees_rsetTargetStatus :: "TargetStatus \<Rightarrow> ResultFeatureTrees \<Rightarrow> ResultFeatureTrees" where
  "ResultFeatureTrees_rsetTargetStatus targetStatus r =
     (let r1 = (if mapped r \<noteq> None
                then r\<lparr>mapped := Some (FeatureNode_rsetTargetStatus targetStatus (the (mapped r)))\<rparr>
                else r)
      in if unmapped r1 \<noteq> None
         then r1\<lparr>unmapped := Some (FeatureNode_rsetTargetStatus targetStatus (the (unmapped r1)))\<rparr>
         else r1)"

definition ResultFeatureTrees_rsetTargetStatusAttr :: "ResultFeatureTrees \<Rightarrow> ResultFeatureTrees" where
  "ResultFeatureTrees_rsetTargetStatusAttr r =
     (let r1 = (if mapped r \<noteq> None
                then r\<lparr>mapped := Some (FeatureNode_rsetTargetStatusAttr (the (mapped r)))\<rparr>
                else r)
      in if unmapped r1 \<noteq> None
         then r1\<lparr>unmapped := Some (FeatureNode_rsetTargetStatusAttr (the (unmapped r1)))\<rparr>
         else r1)"

definition ResultFeatureTrees_setNumMappingsAttr :: "ResultFeatureTrees \<Rightarrow> ResultFeatureTrees" where
  "ResultFeatureTrees_setNumMappingsAttr r =
     (let r1 = (if mapped r \<noteq> None
                then r\<lparr>mapped := Some (FeatureNode_setNumMappingsAttr (the (mapped r)))\<rparr>
                else r)
      in if unmapped r1 \<noteq> None
         then r1\<lparr>unmapped := Some (FeatureNode_setNumMappingsAttr (the (unmapped r1)))\<rparr>
         else r1)"

definition ResultFeatureTrees_rsetRemapStatusAttr :: "ResultFeatureTrees \<Rightarrow> ResultFeatureTrees" where
  "ResultFeatureTrees_rsetRemapStatusAttr r =
     (let r1 = (if mapped r \<noteq> None
                then r\<lparr>mapped := Some (FeatureNode_rsetRemapStatusAttr (the (mapped r)))\<rparr>
                else r)
      in if unmapped r1 \<noteq> None
         then r1\<lparr>unmapped := Some (FeatureNode_rsetRemapStatusAttr (the (unmapped r1)))\<rparr>
         else r1)"

section \<open>ResultFeatureTrees: status of a bounding feature\<close>





section \<open>TransMappedFeature\<close>

text \<open>
  Modelled from the spec: \<open>TransMappedFeature::calcRemapStatus\<close>, declared in
  featureTree.hh, its body is in a file outside the sources: a single-level
  classification, full if every fragment mapped, partial if some did, deleted if
  none did, gated by \<open>srcSeqInMapping\<close>.
\<close>
definition TransMappedFeature_calcRemapStatus :: "bool \<Rightarrow> TransMappedFeature \<Rightarrow> RemapStatus" where
  "TransMappedFeature_calcRemapStatus srcSeqInMapping t =
     (if TransMappedFeature.mapped t = []
      then (if srcSeqInMapping then REMAP_STATUS_DELETED else REMAP_STATUS_NO_SEQ_MAP)
      else if TransMappedFeature.unmapped t = [] then REMAP_STATUS_FULL
      else REMAP_STATUS_PARTIAL)"

text \<open>
  \<open>setRemapStatus(srcSeqInMapping)\<close>: the status is computed once, then the two
  loops assign it to \<open>fRemapStatus\<close> of every node of \<open>mapped\<close> and of
  \<open>unmapped\<close>.
\<close>
definition TransMappedFeature_setRemapStatus :: "bool \<Rightarrow> TransMappedFeature \<Rightarrow> TransMappedFeature" where
  "TransMappedFeature_setRemapStatus srcSeqInMapping t =
     (let remapStatus = TransMappedFeature_calcRemapStatus srcSeqInMapping t
      in t\<lparr>TransMappedFeature.mapped :=
              map (FeatureNode_setRemapStatus remapStatus) (TransMappedFeature.mapped t),
            TransMappedFeature.unmapped :=
              map (FeatureNode_setRemapStatus remapStatus) (TransMappedFeature.unmapped t)\<rparr>)"

section \<open>AnnotationSet\<close>

text \<open>
  \<open>checkRecordSeqRegionWritten(seqid)\<close>: the returned flag and the set as the call
  leaves it.
\<close>
definition checkRecordSeqRegionWritten :: "string \<Rightarrow> AnnotationSet \<Rightarrow> bool \<times> AnnotationSet" where
  "checkRecordSeqRegionWritten seqid a =
     (if seqid \<notin> fSeqRegionsWritten a
      then (False, a\<lparr>fSeqRegionsWritten := insert seqid (fSeqRegionsWritten a)\<rparr>)
      else (True, a))"

text \<open>
  A run of calls of \<open>checkRecordSeqRegionWritten\<close>, one per sequence id of the
  list, in order: the flags returned and the set at the end.
\<close>
fun checkRecordSeqRegionWritten_calls :: "string list \<Rightarrow> AnnotationSet \<Rightarrow> bool list \<times> AnnotationSet" where
  "checkRecordSeqRegionWritten_calls [] a = ([], a)"
| "checkRecordSeqRegionWritten_calls (seqid # seqids) a =
     (let (written, a1) = checkRecordSeqRegionWritten seqid a;
          (flags, a2) = checkRecordSeqRegionWritten_calls seqids a1
      in (written # flags, a2))"

text \<open>
  Modelled from the spec: the loop of \<open>AnnotationSet::write\<close> with
  \<open>outputMappedSeqRegionIfNeed\<close>, both declared in annotationSet.hh with their
  bodies outside the sources: for every gene in the current order the
  sequence-region header of its sequence id is emitted unless
  \<open>checkRecordSeqRegionWritten\<close> reports it written, then the gene tree.
\<close>
fun writeGenes :: "FeatureNode list \<Rightarrow> AnnotationSet \<Rightarrow> GxfOutput list \<times> AnnotationSet" where
  "writeGenes [] a = ([], a)"
| "writeGenes (gene # genes) a =
     (let seqId = fSeqid (fFeature gene);
          (written, a1) = checkRecordSeqRegionWritten seqId a;
          (out, a2) = writeGenes genes a1
      in ((if written then [] else [SeqRegionHeader seqId]) @ GeneOutput gene # out, a2))"

text \<open>
  Modelled from the spec: \<open>AnnotationSet::write\<close> (declared only): the genes of
  the set are written in their current order.
\<close>
definition AnnotationSet_write :: "AnnotationSet \<Rightarrow> GxfOutput list \<times> AnnotationSet" where
  "AnnotationSet_write a = writeGenes (fGenes a) a"

text \<open>The number of sequence-region headers for one sequence id in an output.\<close>
definition countSeqRegionHeaders :: "string \<Rightarrow> GxfOutput list \<Rightarrow> nat" where
  "countSeqRegionHeaders seqid out = length (filter (\<lambda>x. x = SeqRegionHeader seqid) out)"

text \<open>
  Modelled from the spec: \<open>AnnotationSet::getFeatureByKey\<close>, declared in
  annotationSet.hh with its body outside the sources: an exact-key lookup; a key
  with one entry gives that entry; a key with two entries (a pseudoautosomal pair)
  gives the entry whose sequence id differs from \<open>seqIdForParCheck\<close>; a key that is
  absent, holds more than the two entries tolerated, or whose two entries are not
  told apart by the sequence id gives no result.
\<close>
definition getFeatureByKey :: "string \<Rightarrow> (string \<Rightarrow> FeatureNode list option) \<Rightarrow> string \<Rightarrow> FeatureNode option" where
  "getFeatureByKey key featureMap seqIdForParCheck =
     (case featureMap key of
        None \<Rightarrow> None
      | Some [] \<Rightarrow> None
      | Some [f0] \<Rightarrow> Some f0
      | Some [f0, f1] \<Rightarrow>
          (case filter (\<lambda>nd. fSeqid (fFeature nd) \<noteq> seqIdForParCheck) [f0, f1] of
             [nd] \<Rightarrow> Some nd
           | _ \<Rightarrow> None)
      | Some (f0 # f1 # f2 # fs) \<Rightarrow> None)"

text \<open>
  Modelled from the spec: \<open>AnnotationSet::getFeatureById\<close> (declared only): the
  lookup by key in the index by id.
\<close>
definition getFeatureById :: "string \<Rightarrow> string \<Rightarrow> AnnotationSet \<Rightarrow> FeatureNode option" where
  "getFeatureById ident seqIdForParCheck a = getFeatureByKey ident (fIdFeatureMap a) seqIdForParCheck"

text \<open>
  Modelled from the spec: \<open>AnnotationSet::getFeatureByName\<close> (declared only): the
  lookup by key in the index by name.
\<close>
definition getFeatureByName :: "string \<Rightarrow> string \<Rightarrow> AnnotationSet \<Rightarrow> FeatureNode option" where
  "getFeatureByName name seqIdForParCheck a = getFeatureByKey name (fNameFeatureMap a) seqIdForParCheck"

section \<open>Example data\<close>

text \<open>Small records and trees on which the operations are evaluated below.\<close>

definition mkFeature :: "GxfFeatureType \<Rightarrow> string \<Rightarrow> int \<Rightarrow> int \<Rightarrow> GxfFeature" where
  "mkFeature ty seqid s e =
     \<lparr>fType = ty, fSeqid = seqid, fStart = s, fEnd = e, fStrand = ''+'', fAttrs = []\<rparr>"

definition mkNode :: "GxfFeature \<Rightarrow> FeatureNode list \<Rightarrow> RemapStatus \<Rightarrow> FeatureNode" where
  "mkNode ft cs rs = FeatureNode ft cs rs TARGET_STATUS_NA 0"

definition exExon1 :: FeatureNode where
  "exExon1 = mkNode (mkFeature EXON ''chr1'' 100 200) [] REMAP_STATUS_FULL"

definition exExon2 :: FeatureNode where
  "exExon2 = mkNode (mkFeature EXON ''chr1'' 300 400) [] REMAP_STATUS_DELETED"

definition exTrans :: FeatureNode where
  "exTrans = mkNode (mkFeature TRANSCRIPT ''chr1'' 100 400) [exExon1, exExon2] REMAP_STATUS_PARTIAL"

definition exGene :: FeatureNode where
  "exGene = FeatureNode (mkFeature GENE ''chr1'' 100 400) [exTrans] REMAP_STATUS_PARTIAL
              TARGET_STATUS_NEW 2"

definition exGeneX :: FeatureNode where
  "exGeneX = FeatureNode (mkFeature GENE ''chrX'' 10 50) [] REMAP_STATUS_FULL
               TARGET_STATUS_OVERLAP 1"

definition exGeneY :: FeatureNode where
  "exGeneY = FeatureNode (mkFeature GENE ''chrY'' 10 50) [] REMAP_STATUS_NONE
               TARGET_STATUS_NA 3"



definition exObj :: "addr option \<Rightarrow> addr list \<Rightarrow> FeatureNodeObj" where
  "exObj par cs =
     \<lparr>FeatureNodeObj.fFeature = mkFeature OTHER ''chr1'' 0 1,
      FeatureNodeObj.fParent = par,
      FeatureNodeObj.fChildren = cs,
      FeatureNodeObj.fRemapStatus = REMAP_STATUS_NONE,
      FeatureNodeObj.fTargetStatus = TARGET_STATUS_NA,
      FeatureNodeObj.fNumMappings = 0\<rparr>"

text \<open>A store of three nodes: node 0 has the child 1, node 2 is not attached.\<close>
definition exStore :: store where
  "exStore = (\<lambda>a. None)(0 := Some (exObj None [1]), 1 := Some (exObj (Some 0) []),
                         2 := Some (exObj None []))"

definition exSet :: AnnotationSet where
  "exSet =
     \<lparr>fIdFeatureMap = (\<lambda>k. None)(''G1'' := Some [exGeneX, exGeneY], ''G2'' := Some [exGene]),
      fNameFeatureMap = (\<lambda>k. None)(''par'' := Some [exGeneX, exGeneY], ''abc'' := Some [exGene]),
      fGenes = [exGeneX, exGene, exGeneX, exGeneY],
      fSeqRegionsWritten = {}\<rparr>"

section \<open>Properties\<close>

text \<open>
  C1. \<open>getRemapStatus()\<close> returns the remap status of the mapped tree when it is
  present, otherwise of the unmapped tree when that is present, otherwise of the
  target tree when that is present, and \<open>REMAP_STATUS_DELETED\<close> when none is;
  \<open>getTargetStatus()\<close> follows the same preference and returns
  \<open>TARGET_STATUS_LOST\<close> when none is present.
\<close>
theorem getStatus_preference:
  "(mapped r = Some m \<longrightarrow>
      ResultFeatureTrees_getRemapStatus r = fRemapStatus m \<and>
      ResultFeatureTrees_getTargetStatus r = fTargetStatus m) \<and>
   (mapped r = None \<and> unmapped r = Some u \<longrightarrow>
      ResultFeatureTrees_getRemapStatus r = fRemapStatus u \<and>
      ResultFeatureTrees_getTargetStatus r = fTargetStatus u) \<and>
   (mapped r = None \<and> unmapped r = None \<and> target r = Some t \<longrightarrow>
      ResultFeatureTrees_getRemapStatus r = fRemapStatus t \<and>
      ResultFeatureTrees_getTargetStatus r = fTargetStatus t) \<and>
   (mapped r = None \<and> unmapped r = None \<and> target r = None \<longrightarrow>
      ResultFeatureTrees_getRemapStatus r = REMAP_STATUS_DELETED \<and>
      ResultFeatureTrees_getTargetStatus r = TARGET_STATUS_LOST)"
  by (simp add: ResultFeatureTrees_getRemapStatus_def ResultFeatureTrees_getTargetStatus_def)

theorem getStatus_preference_witness:
  "ResultFeatureTrees_getRemapStatus
     \<lparr>src = None, mapped = Some exGeneX, unmapped = Some exGeneY, target = Some exGene\<rparr>
     = REMAP_STATUS_FULL \<and>
   ResultFeatureTrees_getTargetStatus
     \<lparr>src = None, mapped = None, unmapped = Some exGeneY, target = Some exGene\<rparr>
     = TARGET_STATUS_NA \<and>
   ResultFeatureTrees_getTargetStatus
     \<lparr>src = None, mapped = None, unmapped = None, target = Some exGene\<rparr>
     = TARGET_STATUS_NEW \<and>
   ResultFeatureTrees_getRemapStatus
     \<lparr>src = Some exGene, mapped = None, unmapped = None, target = None\<rparr>
     = REMAP_STATUS_DELETED"
  using
    getStatus_preference [of "\<lparr>src = None, mapped = Some exGeneX, unmapped = Some exGeneY,
                                target = Some exGene\<rparr>" exGeneX exGeneY exGene]
    getStatus_preference [of "\<lparr>src = None, mapped = None, unmapped = Some exGeneY,
                                target = Some exGene\<rparr>" exGeneX exGeneY exGene]
    getStatus_preference [of "\<lparr>src = None, mapped = None, unmapped = None,
                                target = Some exGene\<rparr>" exGeneX exGeneY exGene]
    getStatus_preference [of "\<lparr>src = Some exGene, mapped = None, unmapped = None,
                                target = None\<rparr>" exGeneX exGeneY exGene]
  by (simp add: exGeneX_def exGeneY_def exGene_def)

text \<open>
  C9. \<open>getNumMappings()\<close> returns the mapping count of the mapped tree when it is
  present, otherwise that of the unmapped tree when that is present, and otherwise
  0; whatever the target tree is, the result is the same.
\<close>
theorem getNumMappings_preference:
  "(mapped r = Some m \<longrightarrow> ResultFeatureTrees_getNumMappings r = fNumMappings m) \<and>
   (mapped r = None \<and> unmapped r = Some u \<longrightarrow>
      ResultFeatureTrees_getNumMappings r = fNumMappings u) \<and>
   (mapped r = None \<and> unmapped r = None \<longrightarrow> ResultFeatureTrees_getNumMappings r = 0) \<and>
   ResultFeatureTrees_getNumMappings (r\<lparr>target := t\<rparr>) = ResultFeatureTrees_getNumMappings r"
  by (simp add: ResultFeatureTrees_getNumMappings_def)

theorem getNumMappings_preference_witness:
  "ResultFeatureTrees_getNumMappings
     \<lparr>src = None, mapped = Some exGeneX, unmapped = Some exGeneY, target = Some exGene\<rparr> = 1 \<and>
   ResultFeatureTrees_getNumMappings
     \<lparr>src = None, mapped = None, unmapped = Some exGeneY, target = Some exGene\<rparr> = 3 \<and>
   ResultFeatureTrees_getNumMappings
     \<lparr>src = None, mapped = None, unmapped = None, target = Some exGene\<rparr> = 0"
  using
    getNumMappings_preference [of "\<lparr>src = None, mapped = Some exGeneX, unmapped = Some exGeneY,
                                     target = Some exGene\<rparr>" exGeneX exGeneY "Some exGene"]
    getNumMappings_preference [of "\<lparr>src = None, mapped = None, unmapped = Some exGeneY,
                                     target = Some exGene\<rparr>" exGeneX exGeneY "Some exGene"]
    getNumMappings_preference [of "\<lparr>src = None, mapped = None, unmapped = None,
                                     target = Some exGene\<rparr>" exGeneX exGeneY "Some exGene"]
  by (simp add: exGeneX_def exGeneY_def)

subsection \<open>Fan-out over the mapped and unmapped trees\<close>

lemma fanout_rsetRemapStatus:
  "mapped (ResultFeatureTrees_rsetRemapStatus s r) = map_option (FeatureNode_rsetRemapStatus s) (mapped r) \<and>
   unmapped (ResultFeatureTrees_rsetRemapStatus s r) = map_option (FeatureNode_rsetRemapStatus s) (unmapped r) \<and>
   target (ResultFeatureTrees_rsetRemapStatus s r) = target r \<and>
   src (ResultFeatureTrees_rsetRemapStatus s r) = src r"
  by (cases "mapped r"; cases "unmapped r")
     (simp_all add: ResultFeatureTrees_rsetRemapStatus_def Let_def)

lemma fanout_setTargetStatus:
  "mapped (ResultFeatureTrees_setTargetStatus s r) = map_option (FeatureNode_setTargetStatus s) (mapped r) \<and>
   unmapped (ResultFeatureTrees_setTargetStatus s r) = map_option (FeatureNode_setTargetStatus s) (unmapped r) \<and>
   target (ResultFeatureTrees_setTargetStatus s r) = target r \<and>
   src (ResultFeatureTrees_setTargetStatus s r) = src r"
  by (cases "mapped r"; cases "unmapped r")
     (simp_all add: ResultFeatureTrees_setTargetStatus_def Let_def)

lemma fanout_rsetTargetStatus:
  "mapped (ResultFeatureTrees_rsetTargetStatus s r) = map_option (FeatureNode_rsetTargetStatus s) (mapped r) \<and>
   unmapped (ResultFeatureTrees_rsetTargetStatus s r) = map_option (FeatureNode_rsetTargetStatus s) (unmapped r) \<and>
   target (ResultFeatureTrees_rsetTargetStatus s r) = target r \<and>
   src (ResultFeatureTrees_rsetTargetStatus s r) = src r"
  by (cases "mapped r"; cases "unmapped r")
     (simp_all add: ResultFeatureTrees_rsetTargetStatus_def Let_def)

lemma fanout_rsetTargetStatusAttr:
  "mapped (ResultFeatureTrees_rsetTargetStatusAttr r) = map_option FeatureNode_rsetTargetStatusAttr (mapped r) \<and>
   unmapped (ResultFeatureTrees_rsetTargetStatusAttr r) = map_option FeatureNode_rsetTargetStatusAttr (unmapped r) \<and>
   target (ResultFeatureTrees_rsetTargetStatusAttr r) = target r \<and>
   src (ResultFeatureTrees_rsetTargetStatusAttr r) = src r"
  by (cases "mapped r"; cases "unmapped r")
     (simp_all add: ResultFeatureTrees_rsetTargetStatusAttr_def Let_def)

lemma fanout_setNumMappingsAttr:
  "mapped (ResultFeatureTrees_setNumMappingsAttr r) = map_option FeatureNode_setNumMappingsAttr (mapped r) \<and>
   unmapped (ResultFeatureTrees_setNumMappingsAttr r) = map_option FeatureNode_setNumMappingsAttr (unmapped r) \<and>
   target (ResultFeatureTrees_setNumMappingsAttr r) = target r \<and>
   src (ResultFeatureTrees_setNumMappingsAttr r) = src r"
  by (cases "mapped r"; cases "unmapped r")
     (simp_all add: ResultFeatureTrees_setNumMappingsAttr_def Let_def)

lemma fanout_rsetRemapStatusAttr:
  "mapped (ResultFeatureTrees_rsetRemapStatusAttr r) = map_option FeatureNode_rsetRemapStatusAttr (mapped r) \<and>
   unmapped (ResultFeatureTrees_rsetRemapStatusAttr r) = map_option FeatureNode_rsetRemapStatusAttr (unmapped r) \<and>
   target (ResultFeatureTrees_rsetRemapStatusAttr r) = target r \<and>
   src (ResultFeatureTrees_rsetRemapStatusAttr r) = src r"
  by (cases "mapped r"; cases "unmapped r")
     (simp_all add: ResultFeatureTrees_rsetRemapStatusAttr_def Let_def)

text \<open>
  C5. Each of \<open>rsetRemapStatus\<close>, \<open>setTargetStatus\<close>, \<open>rsetTargetStatus\<close>,
  \<open>rsetTargetStatusAttr\<close>, \<open>setNumMappingsAttr\<close> and \<open>rsetRemapStatusAttr\<close> of
  \<open>ResultFeatureTrees\<close> applies the node operation of the same name to the mapped
  tree and to the unmapped tree where they are present, and leaves the target tree
  and the \<open>src\<close> reference as they were.
\<close>
theorem fanout_mapped_unmapped_only:
  "(mapped (ResultFeatureTrees_rsetRemapStatus rs r) = map_option (FeatureNode_rsetRemapStatus rs) (mapped r) \<and>
    unmapped (ResultFeatureTrees_rsetRemapStatus rs r) = map_option (FeatureNode_rsetRemapStatus rs) (unmapped r) \<and>
    target (ResultFeatureTrees_rsetRemapStatus rs r) = target r \<and>
    src (ResultFeatureTrees_rsetRemapStatus rs r) = src r) \<and>
   (mapped (ResultFeatureTrees_setTargetStatus ts r) = map_option (FeatureNode_setTargetStatus ts) (mapped r) \<and>
    unmapped (ResultFeatureTrees_setTargetStatus ts r) = map_option (FeatureNode_setTargetStatus ts) (unmapped r) \<and>
    target (ResultFeatureTrees_setTargetStatus ts r) = target r \<and>
    src (ResultFeatureTrees_setTargetStatus ts r) = src r) \<and>
   (mapped (ResultFeatureTrees_rsetTargetStatus ts r) = map_option (FeatureNode_rsetTargetStatus ts) (mapped r) \<and>
    unmapped (ResultFeatureTrees_rsetTargetStatus ts r) = map_option (FeatureNode_rsetTargetStatus ts) (unmapped r) \<and>
    target (ResultFeatureTrees_rsetTargetStatus ts r) = target r \<and>
    src (ResultFeatureTrees_rsetTargetStatus ts r) = src r) \<and>
   (mapped (ResultFeatureTrees_rsetTargetStatusAttr r) = map_option FeatureNode_rsetTargetStatusAttr (mapped r) \<and>
    unmapped (ResultFeatureTrees_rsetTargetStatusAttr r) = map_option FeatureNode_rsetTargetStatusAttr (unmapped r) \<and>
    target (ResultFeatureTrees_rsetTargetStatusAttr r) = target r \<and>
    src (ResultFeatureTrees_rsetTargetStatusAttr r) = src r) \<and>
   (mapped (ResultFeatureTrees_setNumMappingsAttr r) = map_option FeatureNode_setNumMappingsAttr (mapped r) \<and>
    unmapped (ResultFeatureTrees_setNumMappingsAttr r) = map_option FeatureNode_setNumMappingsAttr (unmapped r) \<and>
    target (ResultFeatureTrees_setNumMappingsAttr r) = target r \<and>
    src (ResultFeatureTrees_setNumMappingsAttr r) = src r) \<and>
   (mapped (ResultFeatureTrees_rsetRemapStatusAttr r) = map_option FeatureNode_rsetRemapStatusAttr (mapped r) \<and>
    unmapped (ResultFeatureTrees_rsetRemapStatusAttr r) = map_option FeatureNode_rsetRemapStatusAttr (unmapped r) \<and>
    target (ResultFeatureTrees_rsetRemapStatusAttr r) = target r \<and>
    src (ResultFeatureTrees_rsetRemapStatusAttr r) = src r)"
  using fanout_rsetRemapStatus [of rs r] fanout_setTargetStatus [of ts r]
    fanout_rsetTargetStatus [of ts r] fanout_rsetTargetStatusAttr [of r]
    fanout_setNumMappingsAttr [of r] fanout_rsetRemapStatusAttr [of r]
  by (intro conjI) blast+

theorem fanout_mapped_unmapped_only_witness:
  "ResultFeatureTrees_rsetRemapStatus REMAP_STATUS_DELETED
     \<lparr>src = Some exGene, mapped = Some exTrans, unmapped = None, target = Some exGeneX\<rparr> =
   \<lparr>src = Some exGene,
    mapped = Some (mkNode (mkFeature TRANSCRIPT ''chr1'' 100 400)
               [mkNode (mkFeature EXON ''chr1'' 100 200) [] REMAP_STATUS_DELETED,
                mkNode (mkFeature EXON ''chr1'' 300 400) [] REMAP_STATUS_DELETED]
               REMAP_STATUS_DELETED),
    unmapped = None, target = Some exGeneX\<rparr>"
proof -
  let ?r = "\<lparr>src = Some exGene, mapped = Some exTrans, unmapped = None, target = Some exGeneX\<rparr>"
  have "mapped (ResultFeatureTrees_rsetRemapStatus REMAP_STATUS_DELETED ?r) =
          map_option (FeatureNode_rsetRemapStatus REMAP_STATUS_DELETED) (mapped ?r)"
   and "unmapped (ResultFeatureTrees_rsetRemapStatus REMAP_STATUS_DELETED ?r) =
          map_option (FeatureNode_rsetRemapStatus REMAP_STATUS_DELETED) (unmapped ?r)"
   and "target (ResultFeatureTrees_rsetRemapStatus REMAP_STATUS_DELETED ?r) = target ?r"
   and "src (ResultFeatureTrees_rsetRemapStatus REMAP_STATUS_DELETED ?r) = src ?r"
    using fanout_mapped_unmapped_only [of REMAP_STATUS_DELETED ?r] by blast+
  then show ?thesis
    by (cases "ResultFeatureTrees_rsetRemapStatus REMAP_STATUS_DELETED ?r")
       (simp add: exTrans_def exExon1_def exExon2_def mkNode_def)
qed

subsection \<open>Pre-order traversal\<close>

lemma fold_getMatching:
  assumes "\<And>c h. c \<in> set cs \<Longrightarrow> getMatching h flt c = h @ g c"
  shows "fold (\<lambda>c h. getMatching h flt c) cs h0 = h0 @ concat (map g cs)"
  using assms by (induction cs arbitrary: h0) simp_all

text \<open>
  C8. \<open>getMatching\<close> appends to \<open>hits\<close> the records of the nodes of the subtree
  that satisfy the filter, in pre-order: a node before its children, the children in
  insertion order. The result is a finite list.
\<close>
theorem getMatching_preorder:
  "getMatching hits flt nd =
     hits @ map fFeature (filter (\<lambda>n. flt (fFeature n)) (preorder nd))"
proof (induction hits flt nd rule: getMatching.induct)
  case (1 hits flt ft cs rs ts nm)
  have "fold (\<lambda>c h. getMatching h flt c) cs h0 =
          h0 @ concat (map (\<lambda>c. map fFeature (filter (\<lambda>n. flt (fFeature n)) (preorder c))) cs)" for h0
    by (rule fold_getMatching) (simp add: "1.IH")
  then show ?case
    by (simp add: map_concat filter_concat comp_def)
qed

theorem getMatching_preorder_witness:
  "getMatching [] (\<lambda>ft. fType ft \<noteq> TRANSCRIPT) exGene =
     [mkFeature GENE ''chr1'' 100 400, mkFeature EXON ''chr1'' 100 200,
      mkFeature EXON ''chr1'' 300 400]"
  using getMatching_preorder [of "[]" "\<lambda>ft. fType ft \<noteq> TRANSCRIPT" exGene]
  by (simp add: exGene_def exTrans_def exExon1_def exExon2_def mkNode_def mkFeature_def)

subsection \<open>TransMappedFeature: one status for all fragments\<close>

text \<open>
  C10. After \<open>setRemapStatus(srcSeqInMapping)\<close> every node of the mapped vector
  and every node of the unmapped vector has the remap status
  \<open>calcRemapStatus(srcSeqInMapping)\<close>, computed on the feature as it was before
  the assignment; the vectors keep their lengths.
\<close>
theorem setRemapStatus_uniform:
  "(\<forall>n \<in> set (TransMappedFeature.mapped (TransMappedFeature_setRemapStatus b t)) \<union>
           set (TransMappedFeature.unmapped (TransMappedFeature_setRemapStatus b t)).
      fRemapStatus n = TransMappedFeature_calcRemapStatus b t) \<and>
   length (TransMappedFeature.mapped (TransMappedFeature_setRemapStatus b t)) =
     length (TransMappedFeature.mapped t) \<and>
   length (TransMappedFeature.unmapped (TransMappedFeature_setRemapStatus b t)) =
     length (TransMappedFeature.unmapped t)"
  by (auto simp: TransMappedFeature_setRemapStatus_def Let_def FeatureNode_setRemapStatus_def)

theorem setRemapStatus_uniform_witness:
  "map fRemapStatus (TransMappedFeature.mapped (TransMappedFeature_setRemapStatus True
      \<lparr>TransMappedFeature.src = Some exGene, TransMappedFeature.mapped = [exGeneX, exGeneY],
       TransMappedFeature.unmapped = [exGene]\<rparr>)) = [REMAP_STATUS_PARTIAL, REMAP_STATUS_PARTIAL] \<and>
   map fRemapStatus (TransMappedFeature.unmapped (TransMappedFeature_setRemapStatus True
      \<lparr>TransMappedFeature.src = Some exGene, TransMappedFeature.mapped = [exGeneX, exGeneY],
       TransMappedFeature.unmapped = [exGene]\<rparr>)) = [REMAP_STATUS_PARTIAL]"
proof -
  let ?t = "\<lparr>TransMappedFeature.src = Some exGene, TransMappedFeature.mapped = [exGeneX, exGeneY],
             TransMappedFeature.unmapped = [exGene]\<rparr>"
  have calc: "TransMappedFeature_calcRemapStatus True ?t = REMAP_STATUS_PARTIAL"
    by (simp add: TransMappedFeature_calcRemapStatus_def)
  have all: "\<forall>n \<in> set (TransMappedFeature.mapped (TransMappedFeature_setRemapStatus True ?t)) \<union>
                  set (TransMappedFeature.unmapped (TransMappedFeature_setRemapStatus True ?t)).
               fRemapStatus n = REMAP_STATUS_PARTIAL"
    using setRemapStatus_uniform [of True ?t] calc by simp
  have len: "length (TransMappedFeature.mapped (TransMappedFeature_setRemapStatus True ?t)) = 2"
            "length (TransMappedFeature.unmapped (TransMappedFeature_setRemapStatus True ?t)) = 1"
    using setRemapStatus_uniform [of True ?t] by simp_all
  from all len show ?thesis
    by (simp add: TransMappedFeature_setRemapStatus_def Let_def TransMappedFeature_calcRemapStatus_def
          FeatureNode_setRemapStatus_def)
qed

subsection \<open>Attaching a child\<close>

text \<open>
  C3. For nodes \<open>this\<close> and \<open>node\<close> of the store: when \<open>node\<close> has no parent,
  \<open>this.addChild(node)\<close> returns, \<open>node\<close> is the last child of \<open>this\<close> after the
  children it had, in their order, the parent of \<open>node\<close> is \<open>this\<close>, and no other
  node changes; when \<open>node\<close> has a parent the assertion fails.
\<close>
theorem addChild_appends:
  "h this = Some p \<and> h node = Some n \<longrightarrow>
     (fParent n = None \<longrightarrow>
        (\<exists>h' p' n'. FeatureNode_addChild this node h = Inr h' \<and>
           h' this = Some p' \<and>
           FeatureNodeObj.fChildren p' = FeatureNodeObj.fChildren p @ [node] \<and>
           h' node = Some n' \<and> fParent n' = Some this \<and>
           (\<forall>a. a \<noteq> this \<and> a \<noteq> node \<longrightarrow> h' a = h a))) \<and>
     (fParent n \<noteq> None \<longrightarrow> FeatureNode_addChild this node h = Inl AssertionFailed)"
  by (cases "this = node") (auto simp: FeatureNode_addChild_def Let_def)

theorem addChild_appends_witness:
  "(\<exists>h' p' n'. FeatureNode_addChild 0 2 exStore = Inr h' \<and>
      h' 0 = Some p' \<and> FeatureNodeObj.fChildren p' = [1, 2] \<and>
      h' 2 = Some n' \<and> fParent n' = Some 0 \<and> h' 1 = exStore 1) \<and>
   FeatureNode_addChild 2 1 exStore = Inl AssertionFailed"
proof -
  have s0: "exStore 0 = Some (exObj None [1])" and s1: "exStore 1 = Some (exObj (Some 0) [])"
    and s2: "exStore 2 = Some (exObj None [])"
    by (simp_all add: exStore_def)
  have "\<exists>h' p' n'. FeatureNode_addChild 0 2 exStore = Inr h' \<and>
          h' 0 = Some p' \<and>
          FeatureNodeObj.fChildren p' = FeatureNodeObj.fChildren (exObj None [1]) @ [2] \<and>
          h' 2 = Some n' \<and> fParent n' = Some 0 \<and>
          (\<forall>a. a \<noteq> 0 \<and> a \<noteq> 2 \<longrightarrow> h' a = exStore a)"
    using addChild_appends [of exStore 0 "exObj None [1]" 2 "exObj None []"] s0 s2
    by (simp add: exObj_def)
  then have a: "\<exists>h' p' n'. FeatureNode_addChild 0 2 exStore = Inr h' \<and>
      h' 0 = Some p' \<and> FeatureNodeObj.fChildren p' = [1, 2] \<and>
      h' 2 = Some n' \<and> fParent n' = Some 0 \<and> h' 1 = exStore 1"
    by (auto simp: exObj_def)
  have b: "FeatureNode_addChild 2 1 exStore = Inl AssertionFailed"
    using addChild_appends [of exStore 2 "exObj None []" 1 "exObj (Some 0) []"] s1 s2
    by (simp add: exObj_def)
  from a b show ?thesis by blast
qed

subsection \<open>Sequence-region headers\<close>

lemma check_fst: "fst (checkRecordSeqRegionWritten seqid a) = (seqid \<in> fSeqRegionsWritten a)"
  by (simp add: checkRecordSeqRegionWritten_def)

lemma check_snd:
  "fSeqRegionsWritten (snd (checkRecordSeqRegionWritten seqid a)) = insert seqid (fSeqRegionsWritten a)"
  by (auto simp: checkRecordSeqRegionWritten_def)

lemma calls_Cons_fst:
  "fst (checkRecordSeqRegionWritten_calls (s # ss) a) =
     fst (checkRecordSeqRegionWritten s a) #
     fst (checkRecordSeqRegionWritten_calls ss (snd (checkRecordSeqRegionWritten s a)))"
  by (simp split: prod.splits)

lemma calls_flags:
  "i < length seqids \<Longrightarrow>
     fst (checkRecordSeqRegionWritten_calls seqids a) ! i =
       (seqids ! i \<in> fSeqRegionsWritten a \<union> set (take i seqids))"
proof (induction seqids arbitrary: a i)
  case Nil
  then show ?case by simp
next
  case (Cons s ss)
  show ?case
  proof (cases i)
    case 0
    then show ?thesis
      by (simp only: calls_Cons_fst check_fst) simp
  next
    case (Suc j)
    with Cons.prems have j: "j < length ss" by simp
    show ?thesis
      using Cons.IH [OF j, of "snd (checkRecordSeqRegionWritten s a)"] Suc
      by (simp only: calls_Cons_fst check_snd) auto
  qed
qed

lemma writeGenes_Cons_fst:
  "fst (writeGenes (g # gs) a) =
     (if fst (checkRecordSeqRegionWritten (fSeqid (fFeature g)) a) then []
      else [SeqRegionHeader (fSeqid (fFeature g))]) @
     GeneOutput g # fst (writeGenes gs (snd (checkRecordSeqRegionWritten (fSeqid (fFeature g)) a)))"
  by (simp add: Let_def split: prod.splits)

lemma writeGenes_count:
  "countSeqRegionHeaders seqid (fst (writeGenes genes a)) =
     (if seqid \<in> set (map (\<lambda>g. fSeqid (fFeature g)) genes) \<and> seqid \<notin> fSeqRegionsWritten a
      then 1 else 0)"
proof (induction genes arbitrary: a)
  case Nil
  then show ?case by (simp add: countSeqRegionHeaders_def)
next
  case (Cons g gs)
  show ?case
    using Cons.IH [of "snd (checkRecordSeqRegionWritten (fSeqid (fFeature g)) a)"]
    by (simp only: writeGenes_Cons_fst check_fst check_snd)
       (auto simp: countSeqRegionHeaders_def)
qed

text \<open>
  C6. \<open>checkRecordSeqRegionWritten(s)\<close> returns false and records \<open>s\<close> when \<open>s\<close>
  has not been recorded, and returns true and changes nothing when it has; so in a
  run of calls on a set that starts with nothing recorded, a call returns true
  exactly when an earlier call of the run had the same sequence id. A write emits
  at most one sequence-region header per sequence id, and exactly one for a
  sequence id that a gene of the set lies on and that had not been recorded before
  the write.
\<close>
theorem seqRegion_written_once:
  "(seqid \<notin> fSeqRegionsWritten a \<longrightarrow>
      checkRecordSeqRegionWritten seqid a =
        (False, a\<lparr>fSeqRegionsWritten := insert seqid (fSeqRegionsWritten a)\<rparr>)) \<and>
   (seqid \<in> fSeqRegionsWritten a \<longrightarrow> checkRecordSeqRegionWritten seqid a = (True, a)) \<and>
   (fSeqRegionsWritten a = {} \<longrightarrow>
      (\<forall>i < length seqids.
         fst (checkRecordSeqRegionWritten_calls seqids a) ! i = (seqids ! i \<in> set (take i seqids)))) \<and>
   countSeqRegionHeaders seqid (fst (AnnotationSet_write a)) \<le> 1 \<and>
   (seqid \<notin> fSeqRegionsWritten a \<and> seqid \<in> set (map (\<lambda>g. fSeqid (fFeature g)) (fGenes a)) \<longrightarrow>
      countSeqRegionHeaders seqid (fst (AnnotationSet_write a)) = 1)"
proof (intro conjI)
  show "seqid \<notin> fSeqRegionsWritten a \<longrightarrow>
      checkRecordSeqRegionWritten seqid a =
        (False, a\<lparr>fSeqRegionsWritten := insert seqid (fSeqRegionsWritten a)\<rparr>)"
    by (simp add: checkRecordSeqRegionWritten_def)
  show "seqid \<in> fSeqRegionsWritten a \<longrightarrow> checkRecordSeqRegionWritten seqid a = (True, a)"
    by (simp add: checkRecordSeqRegionWritten_def)
  show "fSeqRegionsWritten a = {} \<longrightarrow>
      (\<forall>i < length seqids.
         fst (checkRecordSeqRegionWritten_calls seqids a) ! i = (seqids ! i \<in> set (take i seqids)))"
    by (simp add: calls_flags)
  show "countSeqRegionHeaders seqid (fst (AnnotationSet_write a)) \<le> 1"
    by (simp add: AnnotationSet_write_def writeGenes_count)
  show "seqid \<notin> fSeqRegionsWritten a \<and> seqid \<in> set (map (\<lambda>g. fSeqid (fFeature g)) (fGenes a)) \<longrightarrow>
      countSeqRegionHeaders seqid (fst (AnnotationSet_write a)) = 1"
    by (simp add: AnnotationSet_write_def writeGenes_count)
qed

theorem seqRegion_written_once_witness:
  "checkRecordSeqRegionWritten ''chrX'' exSet = (False, exSet\<lparr>fSeqRegionsWritten := {''chrX''}\<rparr>) \<and>
   checkRecordSeqRegionWritten ''chrX'' (exSet\<lparr>fSeqRegionsWritten := {''chrX''}\<rparr>) =
     (True, exSet\<lparr>fSeqRegionsWritten := {''chrX''}\<rparr>) \<and>
   fst (checkRecordSeqRegionWritten_calls [''chrX'', ''chr1'', ''chrX''] exSet) ! 2 = True \<and>
   countSeqRegionHeaders ''chrX'' (fst (AnnotationSet_write exSet)) = 1"
proof -
  have w: "fSeqRegionsWritten exSet = {}"
    and g: "fGenes exSet = [exGeneX, exGene, exGeneX, exGeneY]"
    by (simp_all add: exSet_def)
  have x: "fSeqid (fFeature exGeneX) = ''chrX''"
    by (simp add: exGeneX_def mkFeature_def)
  have 1: "checkRecordSeqRegionWritten ''chrX'' exSet = (False, exSet\<lparr>fSeqRegionsWritten := {''chrX''}\<rparr>)"
    using seqRegion_written_once [of "''chrX''" exSet "[]"] w by simp
  have 2: "checkRecordSeqRegionWritten ''chrX'' (exSet\<lparr>fSeqRegionsWritten := {''chrX''}\<rparr>) =
     (True, exSet\<lparr>fSeqRegionsWritten := {''chrX''}\<rparr>)"
    using seqRegion_written_once [of "''chrX''" "exSet\<lparr>fSeqRegionsWritten := {''chrX''}\<rparr>" "[]"]
    by simp
  have "\<forall>i < length [''chrX'', ''chr1'', ''chrX''].
          fst (checkRecordSeqRegionWritten_calls [''chrX'', ''chr1'', ''chrX''] exSet) ! i =
            ([''chrX'', ''chr1'', ''chrX''] ! i \<in> set (take i [''chrX'', ''chr1'', ''chrX'']))"
    using seqRegion_written_once [of "''chrX''" exSet "[''chrX'', ''chr1'', ''chrX'']"] w by blast
  then have "fst (checkRecordSeqRegionWritten_calls [''chrX'', ''chr1'', ''chrX''] exSet) ! 2 =
            ([''chrX'', ''chr1'', ''chrX''] ! 2 \<in> set (take 2 [''chrX'', ''chr1'', ''chrX'']))"
    by simp
  then have 3: "fst (checkRecordSeqRegionWritten_calls [''chrX'', ''chr1'', ''chrX''] exSet) ! 2 = True"
    by (simp add: numeral_2_eq_2)
  have 4: "countSeqRegionHeaders ''chrX'' (fst (AnnotationSet_write exSet)) = 1"
    using seqRegion_written_once [of "''chrX''" exSet "[]"] w g x by simp
  from 1 2 3 4 show ?thesis by blast
qed

subsection \<open>Status of a bounding feature\<close>









subsection \<open>Lookup by id and by name\<close>

lemma getFeatureByKey_lookup:
  "(featureMap key = None \<longrightarrow> getFeatureByKey key featureMap par = None) \<and>
   (featureMap key = Some [f0] \<longrightarrow> getFeatureByKey key featureMap par = Some f0) \<and>
   (featureMap key = Some [f0, f1] \<and> fSeqid (fFeature f0) \<noteq> par \<and> fSeqid (fFeature f1) = par \<longrightarrow>
      getFeatureByKey key featureMap par = Some f0) \<and>
   (featureMap key = Some [f0, f1] \<and> fSeqid (fFeature f0) = par \<and> fSeqid (fFeature f1) \<noteq> par \<longrightarrow>
      getFeatureByKey key featureMap par = Some f1) \<and>
   (featureMap key = Some [f0, f1] \<and> fSeqid (fFeature f0) = par \<and> fSeqid (fFeature f1) = par \<longrightarrow>
      getFeatureByKey key featureMap par = None) \<and>
   (featureMap key = Some [f0, f1] \<and> fSeqid (fFeature f0) \<noteq> par \<and> fSeqid (fFeature f1) \<noteq> par \<longrightarrow>
      getFeatureByKey key featureMap par = None) \<and>
   (featureMap key = Some fs \<and> 2 < length fs \<longrightarrow> getFeatureByKey key featureMap par = None) \<and>
   (getFeatureByKey key featureMap par = Some nd \<longrightarrow>
      (\<exists>es. featureMap key = Some es \<and> nd \<in> set es \<and>
            (1 < length es \<longrightarrow> fSeqid (fFeature nd) \<noteq> par)))"
proof -
  have "getFeatureByKey key featureMap par = Some nd \<longrightarrow>
      (\<exists>es. featureMap key = Some es \<and> nd \<in> set es \<and>
            (1 < length es \<longrightarrow> fSeqid (fFeature nd) \<noteq> par))"
    by (auto simp: getFeatureByKey_def split: option.splits list.splits if_splits)
  moreover have "featureMap key = Some fs \<and> 2 < length fs \<longrightarrow> getFeatureByKey key featureMap par = None"
    by (auto simp: getFeatureByKey_def split: list.splits)
  ultimately show ?thesis
    by (simp add: getFeatureByKey_def)
qed

text \<open>
  C4. \<open>getFeatureById\<close> and \<open>getFeatureByName\<close> look the key up in the index by
  id and by name: an absent key gives no result; a key with one entry gives that
  entry; a key with two entries gives the entry whose sequence id differs from
  \<open>seqIdForParCheck\<close>, and no result when the sequence id does not tell the two
  apart; more than two entries give no result. A result is always an entry of the
  key. Every case yields a node or no result, there is no failure value.
\<close>
theorem getFeature_lookup:
  "(fIdFeatureMap a key = None \<longrightarrow> getFeatureById key par a = None) \<and>
   (fIdFeatureMap a key = Some [f0] \<longrightarrow> getFeatureById key par a = Some f0) \<and>
   (fIdFeatureMap a key = Some [f0, f1] \<and> fSeqid (fFeature f0) \<noteq> par \<and> fSeqid (fFeature f1) = par \<longrightarrow>
      getFeatureById key par a = Some f0) \<and>
   (fIdFeatureMap a key = Some [f0, f1] \<and> fSeqid (fFeature f0) = par \<and> fSeqid (fFeature f1) \<noteq> par \<longrightarrow>
      getFeatureById key par a = Some f1) \<and>
   (fIdFeatureMap a key = Some [f0, f1] \<and> fSeqid (fFeature f0) = par \<and> fSeqid (fFeature f1) = par \<longrightarrow>
      getFeatureById key par a = None) \<and>
   (fIdFeatureMap a key = Some [f0, f1] \<and> fSeqid (fFeature f0) \<noteq> par \<and> fSeqid (fFeature f1) \<noteq> par \<longrightarrow>
      getFeatureById key par a = None) \<and>
   (fIdFeatureMap a key = Some fs \<and> 2 < length fs \<longrightarrow> getFeatureById key par a = None) \<and>
   (getFeatureById key par a = Some nd \<longrightarrow>
      (\<exists>es. fIdFeatureMap a key = Some es \<and> nd \<in> set es \<and>
            (1 < length es \<longrightarrow> fSeqid (fFeature nd) \<noteq> par))) \<and>
   (fNameFeatureMap a key = None \<longrightarrow> getFeatureByName key par a = None) \<and>
   (fNameFeatureMap a key = Some [f0] \<longrightarrow> getFeatureByName key par a = Some f0) \<and>
   (fNameFeatureMap a key = Some [f0, f1] \<and> fSeqid (fFeature f0) \<noteq> par \<and> fSeqid (fFeature f1) = par \<longrightarrow>
      getFeatureByName key par a = Some f0) \<and>
   (fNameFeatureMap a key = Some [f0, f1] \<and> fSeqid (fFeature f0) = par \<and> fSeqid (fFeature f1) \<noteq> par \<longrightarrow>
      getFeatureByName key par a = Some f1) \<and>
   (fNameFeatureMap a key = Some [f0, f1] \<and> fSeqid (fFeature f0) = par \<and> fSeqid (fFeature f1) = par \<longrightarrow>
      getFeatureByName key par a = None) \<and>
   (fNameFeatureMap a key = Some [f0, f1] \<and> fSeqid (fFeature f0) \<noteq> par \<and> fSeqid (fFeature f1) \<noteq> par \<longrightarrow>
      getFeatureByName key par a = None) \<and>
   (fNameFeatureMap a key = Some fs \<and> 2 < length fs \<longrightarrow> getFeatureByName key par a = None) \<and>
   (getFeatureByName key par a = Some nd \<longrightarrow>
      (\<exists>es. fNameFeatureMap a key = Some es \<and> nd \<in> set es \<and>
            (1 < length es \<longrightarrow> fSeqid (fFeature nd) \<noteq> par)))"
  unfolding getFeatureById_def getFeatureByName_def
  by (insert getFeatureByKey_lookup [of "fIdFeatureMap a" key par f0 f1 fs nd]
        getFeatureByKey_lookup [of "fNameFeatureMap a" key par f0 f1 fs nd],
      elim conjE, intro conjI; assumption)

theorem getFeature_lookup_witness:
  "getFeatureById ''G1'' ''chrX'' exSet = Some exGeneY \<and>
   getFeatureById ''G1'' ''chrY'' exSet = Some exGeneX \<and>
   getFeatureById ''G1'' ''chr1'' exSet = None \<and>
   getFeatureById ''G2'' ''chr1'' exSet = Some exGene \<and>
   getFeatureById ''G3'' ''chr1'' exSet = None \<and>
   getFeatureByName ''par'' ''chrX'' exSet = Some exGeneY \<and>
   getFeatureByName ''nothing'' ''chrX'' exSet = None"
proof -
  have i1: "fIdFeatureMap exSet ''G1'' = Some [exGeneX, exGeneY]"
    and i2: "fIdFeatureMap exSet ''G2'' = Some [exGene]"
    and i3: "fIdFeatureMap exSet ''G3'' = None"
    and n1: "fNameFeatureMap exSet ''par'' = Some [exGeneX, exGeneY]"
    and n2: "fNameFeatureMap exSet ''nothing'' = None"
    by (simp_all add: exSet_def)
  have x: "fSeqid (fFeature exGeneX) = ''chrX''" and y: "fSeqid (fFeature exGeneY) = ''chrY''"
    by (simp_all add: exGeneX_def exGeneY_def mkFeature_def)
  have 1: "getFeatureById ''G1'' ''chrX'' exSet = Some exGeneY"
    using getFeature_lookup [of exSet "''G1''" "''chrX''" exGeneX exGeneY "[]" exGene] i1 x y by simp
  have 2: "getFeatureById ''G1'' ''chrY'' exSet = Some exGeneX"
    using getFeature_lookup [of exSet "''G1''" "''chrY''" exGeneX exGeneY "[]" exGene] i1 x y by simp
  have 3: "getFeatureById ''G1'' ''chr1'' exSet = None"
    using getFeature_lookup [of exSet "''G1''" "''chr1''" exGeneX exGeneY "[]" exGene] i1 x y by simp
  have 4: "getFeatureById ''G2'' ''chr1'' exSet = Some exGene"
    using getFeature_lookup [of exSet "''G2''" "''chr1''" exGene exGeneY "[]" exGene] i2 by simp
  have 5: "getFeatureById ''G3'' ''chr1'' exSet = None"
    using getFeature_lookup [of exSet "''G3''" "''chr1''" exGene exGeneY "[]" exGene] i3 by simp
  have 6: "getFeatureByName ''par'' ''chrX'' exSet = Some exGeneY"
    using getFeature_lookup [of exSet "''par''" "''chrX''" exGeneX exGeneY "[]" exGene] n1 x y by simp
  have 7: "getFeatureByName ''nothing'' ''chrX'' exSet = None"
    using getFeature_lookup [of exSet "''nothing''" "''chrX''" exGeneX exGeneY "[]" exGene] n2 by simp
  from 1 2 3 4 5 6 7 show ?thesis by blast
qed

end
